theory Spec2Isabelle
  imports Complex_Main "HOL-Library.Word" "HOL-Library.AList"
begin

section \<open>JavaScript values\<close>

text \<open>
  The server (\<^verbatim>\<open>src/server.js\<close>) receives request bodies that Express has parsed
  from JSON or from a form encoding, so the values it handles are the JSON values plus
  \<^verbatim>\<open>undefined\<close> (the value of a property that is absent).

  A number is an IEEE binary64 value. A finite one is represented by the rational it
  denotes; \<^verbatim>\<open>+0\<close> and \<^verbatim>\<open>-0\<close> are both \<open>Fin 0\<close> (the server never divides by a
  number, and the two are equal under \<^verbatim>\<open>===\<close>, both falsy and both printed as
  \<^verbatim>\<open>0\<close>). A string is the list of the bytes of its UTF-8 encoding. An object is the
  list of its own properties.
\<close>

datatype jsnum = NaN | PosInf | NegInf | Fin rat

datatype jsval =
    Undefined
  | Null
  | Bool bool
  | Num jsnum
  | Str string
  | Arr "jsval list"
  | Obj "(string \<times> jsval) list"

text \<open>ToBoolean: what \<^verbatim>\<open>!v\<close> and \<^verbatim>\<open>v || d\<close> test.\<close>

fun truthy :: "jsval \<Rightarrow> bool" where
  "truthy Undefined = False"
| "truthy Null = False"
| "truthy (Bool b) = b"
| "truthy (Num NaN) = False"
| "truthy (Num (Fin q)) = (q \<noteq> 0)"
| "truthy (Num PosInf) = True"
| "truthy (Num NegInf) = True"
| "truthy (Str s) = (s \<noteq> [])"
| "truthy (Arr xs) = True"
| "truthy (Obj kvs) = True"

text \<open>\<^verbatim>\<open>a || b\<close> on values.\<close>

definition js_or :: "jsval \<Rightarrow> jsval \<Rightarrow> jsval" where
  "js_or a b = (if truthy a then a else b)"

text \<open>\<^verbatim>\<open>a === b\<close> on numbers: \<^verbatim>\<open>NaN\<close> equals nothing, itself included.\<close>

fun num_strict_eq :: "jsnum \<Rightarrow> jsnum \<Rightarrow> bool" where
  "num_strict_eq NaN b = False"
| "num_strict_eq a NaN = False"
| "num_strict_eq a b = (a = b)"

text \<open>
  \<^verbatim>\<open>v === 'literal'\<close> for a string literal: true for that string only, whatever the
  type of \<open>v\<close>.
\<close>

definition str_strict_eq :: "jsval \<Rightarrow> string \<Rightarrow> bool" where
  "str_strict_eq v s = (case v of Str t \<Rightarrow> t = s | _ \<Rightarrow> False)"

fun is_finite :: "jsnum \<Rightarrow> bool" where
  "is_finite (Fin q) = True"
| "is_finite n = False"

fun is_undefined :: "jsval \<Rightarrow> bool" where
  "is_undefined Undefined = True"
| "is_undefined v = False"

fun is_nullish :: "jsval \<Rightarrow> bool" where
  "is_nullish Undefined = True"
| "is_nullish Null = True"
| "is_nullish v = False"

text \<open>
  What \<^verbatim>\<open>JSON.stringify\<close> puts on the wire for a value, read back as a value: a
  number that is not finite becomes \<^verbatim>\<open>null\<close>, an \<^verbatim>\<open>undefined\<close> array element becomes
  \<^verbatim>\<open>null\<close>, and a property whose value is \<^verbatim>\<open>undefined\<close> is left out.
  \<^verbatim>\<open>res.json\<close> and the body of the request to the score store go through it.
\<close>

fun json_of :: "jsval \<Rightarrow> jsval" where
  "json_of (Num n) = (if is_finite n then Num n else Null)"
| "json_of (Arr xs) = Arr (map (\<lambda>x. if is_undefined x then Null else json_of x) xs)"
| "json_of (Obj kvs) =
     Obj (map (\<lambda>kv. (fst kv, json_of (snd kv))) (filter (\<lambda>kv. \<not> is_undefined (snd kv)) kvs))"
| "json_of v = v"

subsection \<open>Conversions between numbers and strings\<close>

text \<open>
  The server calls \<^verbatim>\<open>parseInt(level, 10)\<close> and \<^verbatim>\<open>parseFloat(mc_gross)\<close>, and
  \<^verbatim>\<open>new URLSearchParams\<close> converts every value it is given to a string. All three
  start with ToString. The parts of these conversions that round to binary64 belong to
  the JavaScript engine: how a number is printed, and how the string given to
  \<^verbatim>\<open>parseInt(s, 10)\<close> and to \<^verbatim>\<open>parseFloat(s)\<close> is read. The handlers take these
  three from a \<open>runtime\<close>, and every theorem about the handlers holds for every
  runtime; \<open>node_runtime\<close> below is the one ECMAScript defines.
\<close>

record runtime =
  num_to_str :: "jsnum \<Rightarrow> string"
  str_to_int :: "string \<Rightarrow> jsnum"
  str_to_float :: "string \<Rightarrow> jsnum"

fun join_comma :: "string list \<Rightarrow> string" where
  "join_comma [] = []"
| "join_comma [s] = s"
| "join_comma (s # t # ss) = s @ '','' @ join_comma (t # ss)"

text \<open>
  ToString. An array is the join of its elements, \<^verbatim>\<open>null\<close> and \<^verbatim>\<open>undefined\<close> giving
  the empty string. An object parsed from JSON inherits \<^verbatim>\<open>Object.prototype.toString\<close>
  and gives \<^verbatim>\<open>[object Object]\<close>, unless it has a property \<^verbatim>\<open>toString\<close> of its own:
  that property is not a function, and the conversion throws a \<^verbatim>\<open>TypeError\<close>
  (\<open>None\<close>).
\<close>

fun js_to_string :: "runtime \<Rightarrow> jsval \<Rightarrow> string option" where
  "js_to_string rt Undefined = Some ''undefined''"
| "js_to_string rt Null = Some ''null''"
| "js_to_string rt (Bool b) = Some (if b then ''true'' else ''false'')"
| "js_to_string rt (Num n) = Some (num_to_str rt n)"
| "js_to_string rt (Str s) = Some s"
| "js_to_string rt (Arr xs) =
     map_option join_comma
       (those (map (\<lambda>x. if is_nullish x then Some [] else js_to_string rt x) xs))"
| "js_to_string rt (Obj kvs) =
     (if ''toString'' \<in> fst ` set kvs then None else Some ''[object Object]'')"

text \<open>\<^verbatim>\<open>parseInt(v, 10)\<close> and \<^verbatim>\<open>parseFloat(v)\<close>; \<open>None\<close> when ToString throws.\<close>

definition parseInt :: "runtime \<Rightarrow> jsval \<Rightarrow> jsnum option" where
  "parseInt rt v = map_option (str_to_int rt) (js_to_string rt v)"

definition parseFloat :: "runtime \<Rightarrow> jsval \<Rightarrow> jsnum option" where
  "parseFloat rt v = map_option (str_to_float rt) (js_to_string rt v)"

text \<open>
  \<^verbatim>\<open>new URLSearchParams(obj)\<close>: the list of the names and values of \<open>obj\<close>, every
  value converted to a string; it throws when one of the conversions does.
\<close>

definition url_search_params :: "runtime \<Rightarrow> (string \<times> jsval) list \<Rightarrow> (string \<times> string) list option" where
  "url_search_params rt obj =
     those (map (\<lambda>kv. map_option (Pair (fst kv)) (js_to_string rt (snd kv))) obj)"

section \<open>Requests, sessions and replies\<close>

text \<open>
  \<^verbatim>\<open>req.body\<close>: the parsed body, an object; the catch-all route \<^verbatim>\<open>app.get('*', ...)\<close>
  is Express 4's, whose body parsers leave the empty object when there is no body.
  Reading a property that is absent gives \<^verbatim>\<open>undefined\<close>.
\<close>

type_synonym body = "(string \<times> jsval) list"

definition field :: "body \<Rightarrow> string \<Rightarrow> jsval" where
  "field b k = (case map_of b k of None \<Rightarrow> Undefined | Some v \<Rightarrow> v)"

text \<open>
  \<^verbatim>\<open>const gameSessions = new Map();
  // Key: sessionToken, Value: { level: number, hasPurchasedContinue: boolean }\<close>
\<close>

record session =
  level :: jsnum
  hasPurchasedContinue :: bool

type_synonym sessions = "string \<rightharpoonup> session"

text \<open>
  \<^verbatim>\<open>gameSessions.get(v)\<close> and \<^verbatim>\<open>gameSessions.has(v)\<close>: the keys of the map are
  strings, so a value of another type is never found.
\<close>

definition sessions_get :: "sessions \<Rightarrow> jsval \<Rightarrow> session option" where
  "sessions_get tbl v = (case v of Str t \<Rightarrow> tbl t | _ \<Rightarrow> None)"

definition sessions_has :: "sessions \<Rightarrow> jsval \<Rightarrow> bool" where
  "sessions_has tbl v = (sessions_get tbl v \<noteq> None)"

text \<open>
  A reply is a status code and a payload: \<^verbatim>\<open>res.status(c).json(v)\<close> sends the JSON of
  \<open>v\<close>, \<^verbatim>\<open>res.status(c).send(s)\<close> sends the text \<open>s\<close>; \<^verbatim>\<open>res.json(v)\<close> alone has
  status 200. When a handler throws outside a \<^verbatim>\<open>try\<close>, Express answers 500 with its
  own error page.
\<close>

datatype payload = Json jsval | Text string | Error_page

datatype reply = Reply (status: nat) (content: payload)

definition res_json :: "nat \<Rightarrow> jsval \<Rightarrow> reply" where
  "res_json c v = Reply c (Json (json_of v))"

definition res_send :: "nat \<Rightarrow> string \<Rightarrow> reply" where
  "res_send c s = Reply c (Text s)"

section \<open>Session tokens\<close>

text \<open>\<^verbatim>\<open>crypto.randomBytes(32).toString('hex')\<close>: two lower-case hex digits a byte.\<close>

definition hex_digit :: "nat \<Rightarrow> char" where
  "hex_digit n = ''0123456789abcdef'' ! (n mod 16)"

definition hex_byte :: "8 word \<Rightarrow> string" where
  "hex_byte b = [hex_digit (unat b div 16), hex_digit (unat b mod 16)]"

definition to_hex :: "8 word list \<Rightarrow> string" where
  "to_hex bs = concat (map hex_byte bs)"

section \<open>The handlers\<close>

subsection \<open>\<^verbatim>\<open>POST /api/create-session\<close>\<close>

text \<open>
  \<^verbatim>\<open>const { level } = req.body;
  if (!level) { return res.status(400).json({ error: 'Level is required' }); }
  const sessionToken = crypto.randomBytes(32).toString('hex');
  gameSessions.set(sessionToken, { level: parseInt(level, 10), hasPurchasedContinue: false });
  res.json({ sessionToken });\<close>

  The bytes drawn by \<^verbatim>\<open>crypto.randomBytes\<close> are an argument of the model. When
  \<^verbatim>\<open>parseInt\<close> throws, nothing has been stored yet.
\<close>

definition create_session ::
  "runtime \<Rightarrow> sessions \<Rightarrow> body \<Rightarrow> 8 word list \<Rightarrow> reply \<times> sessions" where
  "create_session rt tbl b rnd =
     (let lv = field b ''level'' in
      if \<not> truthy lv then (res_json 400 (Obj [(''error'', Str ''Level is required'')]), tbl)
      else
        let sessionToken = to_hex rnd in
        (case parseInt rt lv of
           None \<Rightarrow> (Reply 500 Error_page, tbl)
         | Some n \<Rightarrow>
             (res_json 200 (Obj [(''sessionToken'', Str sessionToken)]),
              tbl(sessionToken \<mapsto> \<lparr>level = n, hasPurchasedContinue = False\<rparr>))))"

subsection \<open>\<^verbatim>\<open>POST /api/paypal-ipn\<close>\<close>

text \<open>
  What the round trip to the verifier gives: either \<^verbatim>\<open>fetch\<close> or reading the reply's
  text throws, or the verifier replied with a status and a text. The handler never looks
  at the status.
\<close>

datatype verifier_outcome = Verifier_threw | Verifier_replied nat string

text \<open>The literal \<^verbatim>\<open>1.99\<close>: the binary64 value nearest to it.\<close>

definition price :: jsnum where
  "price = Fin (8962163258467287 / 4503599627370496)"

text \<open>
  The handler, step by step as in the source; everything is inside one \<^verbatim>\<open>try\<close>, whose
  \<^verbatim>\<open>catch\<close> answers \<^verbatim>\<open>500 Server Error\<close>.
  \<^item> \<^verbatim>\<open>verificationData = { ...ipnData, cmd: '_notify-validate' }\<close>, encoded with
    \<^verbatim>\<open>new URLSearchParams\<close>, which can throw;
  \<^item> the round trip, which can throw, and the comparison of its text with
    \<^verbatim>\<open>'VERIFIED'\<close>;
  \<^item> \<^verbatim>\<open>payment_status !== 'Completed'\<close>;
  \<^item> \<^verbatim>\<open>mc_currency !== 'USD' || parseFloat(mc_gross) !== 1.99\<close>, the second operand
    evaluated only when the first is false;
  \<^item> \<^verbatim>\<open>!sessionToken || !gameSessions.has(sessionToken)\<close>;
  \<^item> the grant. \<^verbatim>\<open>gameSessions.get\<close> cannot miss after \<^verbatim>\<open>gameSessions.has\<close>; if it
    did, the assignment to a property of \<^verbatim>\<open>undefined\<close> would throw.
\<close>

definition verification_request :: "runtime \<Rightarrow> body \<Rightarrow> (string \<times> string) list option" where
  "verification_request rt ipnData =
     (let verificationData = AList.update ''cmd'' (Str ''_notify-validate'') ipnData
      in url_search_params rt verificationData)"

definition handle_payment_notification ::
  "runtime \<Rightarrow> sessions \<Rightarrow> body \<Rightarrow> verifier_outcome \<Rightarrow> reply \<times> sessions" where
  "handle_payment_notification rt tbl ipnData outcome =
     (case verification_request rt ipnData of
        None \<Rightarrow> (res_send 500 ''Server Error'', tbl)
      | Some params \<Rightarrow>
     (case outcome of
        Verifier_threw \<Rightarrow> (res_send 500 ''Server Error'', tbl)
      | Verifier_replied st verificationResult \<Rightarrow>
          if verificationResult \<noteq> ''VERIFIED'' then (res_send 400 ''IPN Verification Failed'', tbl)
          else
            let payment_status = field ipnData ''payment_status'';
                mc_gross = field ipnData ''mc_gross'';
                mc_currency = field ipnData ''mc_currency'';
                custom = field ipnData ''custom''
            in
              if \<not> str_strict_eq payment_status ''Completed''
              then (res_send 200 ''Payment not completed'', tbl)
              else if \<not> str_strict_eq mc_currency ''USD''
              then (res_send 200 ''Invalid payment amount or currency'', tbl)
              else
                (case parseFloat rt mc_gross of
                   None \<Rightarrow> (res_send 500 ''Server Error'', tbl)
                 | Some amount \<Rightarrow>
                     if \<not> num_strict_eq amount price
                     then (res_send 200 ''Invalid payment amount or currency'', tbl)
                     else if \<not> truthy custom \<or> \<not> sessions_has tbl custom
                     then (res_send 400 ''Invalid session'', tbl)
                     else
                       (case (custom, sessions_get tbl custom) of
                          (Str sessionToken, Some sessionData) \<Rightarrow>
                            (res_send 200 ''OK'',
                             tbl(sessionToken \<mapsto> sessionData\<lparr>hasPurchasedContinue := True\<rparr>))
                        | _ \<Rightarrow> (res_send 500 ''Server Error'', tbl)))))"

subsection \<open>\<^verbatim>\<open>GET /api/check-continue/:token\<close>\<close>

text \<open>
  \<^verbatim>\<open>if (!token || !gameSessions.has(token)) {
      return res.status(404).json({ error: 'Session not found' }); }
  const sessionData = gameSessions.get(token);
  res.json({ hasPurchasedContinue: sessionData.hasPurchasedContinue, level: sessionData.level });
  // gameSessions.delete(token);\<close>

  The route parameter is a string.
\<close>

definition check_continue :: "sessions \<Rightarrow> string \<Rightarrow> reply \<times> sessions" where
  "check_continue tbl token =
     (if token = [] \<or> tbl token = None
      then (res_json 404 (Obj [(''error'', Str ''Session not found'')]), tbl)
      else
        (case tbl token of
           Some sessionData \<Rightarrow>
             (res_json 200
                (Obj [(''hasPurchasedContinue'', Bool (hasPurchasedContinue sessionData)),
                      (''level'', Num (level sessionData))]),
              tbl)
         | None \<Rightarrow> (res_json 404 (Obj [(''error'', Str ''Session not found'')]), tbl)))"

subsection \<open>\<^verbatim>\<open>GET /api/scores\<close> and \<^verbatim>\<open>POST /api/scores\<close>\<close>

text \<open>
  What the request to the score store gives: \<^verbatim>\<open>fetch\<close> throws (a transport failure,
  with its message), or the store replied with a status, a body text and, when that text
  is JSON, the value it parses to. \<^verbatim>\<open>response.ok\<close> is a status from 200 to 299.
\<close>

datatype store_outcome = Store_threw string | Store_replied nat string "jsval option"

definition response_ok :: "nat \<Rightarrow> bool" where
  "response_ok st = (200 \<le> st \<and> st \<le> 299)"

text \<open>
  \<^verbatim>\<open>try {
      const response = await fetch(..., { method: 'GET', ... });
      if (!response.ok) { throw new Error(...); }
      const data = await response.json();
      res.json(data);
  } catch (error) { res.status(500).json({ error: 'Failed to fetch high scores' }); }\<close>
\<close>

definition list_scores :: "store_outcome \<Rightarrow> reply" where
  "list_scores outcome =
     (case outcome of
        Store_threw msg \<Rightarrow> res_json 500 (Obj [(''error'', Str ''Failed to fetch high scores'')])
      | Store_replied st txt parsed \<Rightarrow>
          if \<not> response_ok st
          then res_json 500 (Obj [(''error'', Str ''Failed to fetch high scores'')])
          else
            (case parsed of
               None \<Rightarrow> res_json 500 (Obj [(''error'', Str ''Failed to fetch high scores'')])
             | Some data \<Rightarrow> res_json 200 data))"

text \<open>
  \<^verbatim>\<open>const { score, player_name, level } = req.body;
  if (!score || !player_name) {
      return res.status(400).json({ error: 'Score and player_name are required' }); }
  const response = await fetch(..., { method: 'POST', ...,
      body: JSON.stringify({ score, player_name, level: level || 1 }) });
  if (!response.ok) { ...; throw new Error(...); }
  const data = await response.json();
  res.status(201).json(data);
  ... catch (error) { res.status(500).json({ error: 'Failed to save high score' }); }\<close>

  The result is the reply and the JSON body sent to the store, if a request was sent.
\<close>

definition submit_score :: "body \<Rightarrow> store_outcome \<Rightarrow> reply \<times> jsval option" where
  "submit_score b outcome =
     (let score = field b ''score'';
          player_name = field b ''player_name'';
          lv = field b ''level''
      in
        if \<not> truthy score \<or> \<not> truthy player_name
        then (res_json 400 (Obj [(''error'', Str ''Score and player_name are required'')]), None)
        else
          let sent = json_of (Obj [(''score'', score), (''player_name'', player_name),
                                   (''level'', js_or lv (Num (Fin 1)))])
          in
            (case outcome of
               Store_threw msg \<Rightarrow>
                 (res_json 500 (Obj [(''error'', Str ''Failed to save high score'')]), Some sent)
             | Store_replied st txt parsed \<Rightarrow>
                 if \<not> response_ok st
                 then (res_json 500 (Obj [(''error'', Str ''Failed to save high score'')]), Some sent)
                 else
                   (case parsed of
                      None \<Rightarrow>
                        (res_json 500 (Obj [(''error'', Str ''Failed to save high score'')]), Some sent)
                    | Some data \<Rightarrow> (res_json 201 data, Some sent))))"

subsection \<open>The service as a transition system\<close>

text \<open>The three operations on the session table, with what each receives.\<close>

datatype request =
    Create_session body "8 word list"
  | Payment_notification body verifier_outcome
  | Check_continue string

definition handle :: "runtime \<Rightarrow> sessions \<Rightarrow> request \<Rightarrow> reply \<times> sessions" where
  "handle rt tbl req =
     (case req of
        Create_session b rnd \<Rightarrow> create_session rt tbl b rnd
      | Payment_notification b outcome \<Rightarrow> handle_payment_notification rt tbl b outcome
      | Check_continue token \<Rightarrow> check_continue tbl token)"

text \<open>\<^verbatim>\<open>crypto.randomBytes(32)\<close> gives 32 bytes.\<close>

definition draws_32 :: "request \<Rightarrow> bool" where
  "draws_32 req = (case req of Create_session b rnd \<Rightarrow> length rnd = 32 | _ \<Rightarrow> True)"

text \<open>
  The token a request creates is new to the table. The generator is cryptographic and
  draws 256 bits, and the service relies on it for never issuing a token twice.
\<close>

definition token_is_new :: "sessions \<Rightarrow> request \<Rightarrow> bool" where
  "token_is_new tbl req =
     (case req of Create_session b rnd \<Rightarrow> tbl (to_hex rnd) = None | _ \<Rightarrow> True)"

text \<open>The tables the service can be in: it starts with \<^verbatim>\<open>new Map()\<close>.\<close>

inductive reachable :: "runtime \<Rightarrow> sessions \<Rightarrow> bool" for rt :: runtime where
  start: "reachable rt Map.empty"
| step: "reachable rt tbl \<Longrightarrow> draws_32 req \<Longrightarrow> reachable rt (snd (handle rt tbl req))"

text \<open>
  The bytes drawn so far: those of the \<^verbatim>\<open>create-session\<close> requests of a history, whether
  the request was accepted or not.
\<close>

definition drawn :: "request list \<Rightarrow> 8 word list list" where
  "drawn reqs = concat (map (\<lambda>req. case req of Create_session b rnd \<Rightarrow> [rnd] | _ \<Rightarrow> []) reqs)"

text \<open>The table after a history of requests, from \<^verbatim>\<open>new Map()\<close>.\<close>

definition run :: "runtime \<Rightarrow> request list \<Rightarrow> sessions" where
  "run rt reqs = foldl (\<lambda>tbl req. snd (handle rt tbl req)) Map.empty reqs"

section \<open>The built-ins of the engine\<close>

text \<open>
  The three conversions as ECMAScript defines them. A number is printed with the fewest
  digits that read back as the same number. \<^verbatim>\<open>parseInt(s, 10)\<close> and \<^verbatim>\<open>parseFloat(s)\<close>
  drop leading white space, read the longest prefix that is a numeral, and round its
  value to the nearest binary64 number, ties to the even significand.
\<close>

subsection \<open>Rounding to binary64\<close>

text \<open>\<open>b\<close> to the power \<open>e\<close>, for an exponent of either sign.\<close>

definition pow_int :: "int \<Rightarrow> int \<Rightarrow> rat" where
  "pow_int b e = (if 0 \<le> e then of_int b ^ nat e else 1 / of_int b ^ nat (- e))"

text \<open>The number of digits of a positive integer in base \<open>b\<close>; 0 for the others.\<close>

function count_digits :: "int \<Rightarrow> int \<Rightarrow> int" where
  "count_digits b a = (if 1 < b \<and> 0 < a then count_digits b (a div b) + 1 else 0)"
  by pat_completeness auto
termination
proof (relation "measure (\<lambda>(b, a). nat a)")
  show "wf (measure (\<lambda>(b::int, a::int). nat a))" by simp
next
  fix b a :: int
  assume "1 < b \<and> 0 < a"
  then have "a div b < a" by (simp add: int_div_less_self)
  with \<open>1 < b \<and> 0 < a\<close> show "((b, a div b), (b, a)) \<in> measure (\<lambda>(b, a). nat a)"
    by simp
qed

declare count_digits.simps [simp del]

text \<open>For \<open>q > 0\<close>, the exponent \<open>e\<close> with \<open>b ^ e \<le> q < b ^ (e + 1)\<close>.\<close>

definition floor_log :: "int \<Rightarrow> rat \<Rightarrow> int" where
  "floor_log b q =
     (if 1 \<le> q then count_digits b \<lfloor>q\<rfloor> - 1 else - count_digits b (\<lceil>1 / q\<rceil> - 1))"

text \<open>The nearest integer, a tie going to the even one.\<close>

definition round_half_even :: "rat \<Rightarrow> int" where
  "round_half_even q =
     (let f = \<lfloor>q\<rfloor>; r = q - of_int f
      in if r < 1 / 2 then f else if 1 / 2 < r then f + 1 else if even f then f else f + 1)"

text \<open>
  The binary64 number nearest to a rational: 53 significant bits, the exponent of the
  unit in the last place not below \<open>-1074\<close> (subnormal numbers), and infinity from
  \<open>2 ^ 1024\<close> on.
\<close>

definition to_double :: "rat \<Rightarrow> jsnum" where
  "to_double q =
     (if q = 0 then Fin 0
      else
        let a = \<bar>q\<bar>;
            e = max (floor_log 2 a) (- 1022);
            ulp = pow_int 2 (e - 52);
            v = of_int (round_half_even (a / ulp)) * ulp
        in if 2 ^ 1024 \<le> v then (if q < 0 then NegInf else PosInf)
           else Fin (if q < 0 then - v else v))"

subsection \<open>Printing a number\<close>

definition digit_char :: "int \<Rightarrow> char" where
  "digit_char d = ''0123456789'' ! nat (d mod 10)"

text \<open>The decimal digits of a natural number.\<close>

function digits_of :: "int \<Rightarrow> string" where
  "digits_of n = (if n < 10 then [digit_char n] else digits_of (n div 10) @ [digit_char (n mod 10)])"
  by pat_completeness auto
termination
proof (relation "measure nat")
  show "wf (measure nat)" by simp
next
  fix n :: int
  assume "\<not> n < 10"
  then have "n div 10 < n" by (simp add: int_div_less_self)
  with \<open>\<not> n < 10\<close> show "(n div 10, n) \<in> measure nat" by simp
qed

declare digits_of.simps [simp del]

text \<open>
  Number::toString writes \<open>x > 0\<close> as \<open>s \<times> 10 ^ (n - k)\<close> with \<open>k\<close> digits
  \<open>s\<close>, for the least \<open>k\<close> for which some such number rounds to \<open>x\<close>, and among
  those the one nearest to \<open>x\<close>. Here \<open>10 ^ (n - 1) \<le> x < 10 ^ n\<close>, and the candidates with
  \<open>k\<close> digits are the two multiples of \<open>10 ^ (n - k)\<close> around \<open>x\<close>; the upper one may be
  \<open>10 ^ n\<close>, which is the one digit 1 at the next power of ten. \<open>digits_at x n k\<close> is the
  choice \<open>(s, n)\<close> at \<open>k\<close> digits, if there is one.
\<close>

definition digits_at :: "rat \<Rightarrow> int \<Rightarrow> int \<Rightarrow> (int \<times> int) option" where
  "digits_at x n k =
     (let u = pow_int 10 (n - k);
          lo = \<lfloor>x / u\<rfloor>;
          hi = lo + 1;
          below = x - of_int lo * u;
          above = of_int hi * u - x;
          ok_lo = (to_double (of_int lo * u) = Fin x);
          ok_hi = (to_double (of_int hi * u) = Fin x \<and> (hi < 10 ^ nat k \<or> k = 1))
      in if ok_hi \<and> (\<not> ok_lo \<or> above < below \<or> (above = below \<and> even hi))
         then (if hi < 10 ^ nat k then Some (hi, n) else Some (1, n + 1))
         else if ok_lo then Some (lo, n) else None)"

text \<open>
  The first number of digits that works; 17 digits always do for a binary64 number, so
  the first equation is for rationals that are no binary64 numbers.
\<close>

fun first_digits :: "rat \<Rightarrow> int \<Rightarrow> int list \<Rightarrow> int \<times> int \<times> int" where
  "first_digits x n [] = (\<lfloor>x / pow_int 10 (n - 17)\<rfloor>, n, 17)"
| "first_digits x n (k # ks) =
     (case digits_at x n k of Some (s, n') \<Rightarrow> (s, n', k) | None \<Rightarrow> first_digits x n ks)"

definition shortest_digits :: "rat \<Rightarrow> int \<times> int \<times> int" where
  "shortest_digits x = first_digits x (floor_log 10 x + 1) [1..17]"

text \<open>
  The layout of the digits: an integer, a decimal point inside or in front, or the
  exponent form \<^verbatim>\<open>d.ddde+N\<close> from \<open>10 ^ 21\<close> on and below \<open>10 ^ -6\<close>.
\<close>

definition positive_to_string :: "rat \<Rightarrow> string" where
  "positive_to_string x =
     (case shortest_digits x of (s, n, k) \<Rightarrow>
        let ds = digits_of s in
        if k \<le> n \<and> n \<le> 21 then ds @ replicate (nat (n - k)) CHR ''0''
        else if 0 < n \<and> n \<le> 21 then take (nat n) ds @ ''.'' @ drop (nat n) ds
        else if - 6 < n \<and> n \<le> 0 then ''0.'' @ replicate (nat (- n)) CHR ''0'' @ ds
        else
          let e = n - 1;
              es = (if e < 0 then ''-'' else ''+'') @ digits_of \<bar>e\<bar>
          in if k = 1 then ds @ ''e'' @ es else take 1 ds @ ''.'' @ drop 1 ds @ ''e'' @ es)"

fun number_to_string :: "jsnum \<Rightarrow> string" where
  "number_to_string NaN = ''NaN''"
| "number_to_string PosInf = ''Infinity''"
| "number_to_string NegInf = ''-Infinity''"
| "number_to_string (Fin q) =
     (if q = 0 then ''0''
      else if q < 0 then ''-'' @ positive_to_string (- q)
      else positive_to_string q)"

subsection \<open>Reading a number\<close>

text \<open>
  The white space and line terminators of ECMAScript, in UTF-8: tab, line feed, vertical
  tab, form feed, carriage return, space, U+00A0, U+1680, U+2000 to U+200A, U+2028,
  U+2029, U+202F, U+205F, U+3000 and U+FEFF.
\<close>

definition white_space :: "string list" where
  "white_space =
     [[CHR 0x09], [CHR 0x0A], [CHR 0x0B], [CHR 0x0C], [CHR 0x0D], [CHR 0x20],
      [CHR 0xC2, CHR 0xA0],
      [CHR 0xE1, CHR 0x9A, CHR 0x80],
      [CHR 0xE2, CHR 0x80, CHR 0x80], [CHR 0xE2, CHR 0x80, CHR 0x81],
      [CHR 0xE2, CHR 0x80, CHR 0x82], [CHR 0xE2, CHR 0x80, CHR 0x83],
      [CHR 0xE2, CHR 0x80, CHR 0x84], [CHR 0xE2, CHR 0x80, CHR 0x85],
      [CHR 0xE2, CHR 0x80, CHR 0x86], [CHR 0xE2, CHR 0x80, CHR 0x87],
      [CHR 0xE2, CHR 0x80, CHR 0x88], [CHR 0xE2, CHR 0x80, CHR 0x89],
      [CHR 0xE2, CHR 0x80, CHR 0x8A],
      [CHR 0xE2, CHR 0x80, CHR 0xA8], [CHR 0xE2, CHR 0x80, CHR 0xA9],
      [CHR 0xE2, CHR 0x80, CHR 0xAF],
      [CHR 0xE2, CHR 0x81, CHR 0x9F],
      [CHR 0xE3, CHR 0x80, CHR 0x80],
      [CHR 0xEF, CHR 0xBB, CHR 0xBF]]"

definition starts_with :: "string \<Rightarrow> string \<Rightarrow> bool" where
  "starts_with p s = (take (length p) s = p)"

function trim_start :: "string \<Rightarrow> string" where
  "trim_start s =
     (case find (\<lambda>p. starts_with p s) white_space of
        None \<Rightarrow> s
      | Some p \<Rightarrow> trim_start (drop (length p) s))"
  by pat_completeness auto
termination
proof (relation "measure length")
  show "wf (measure (length :: string \<Rightarrow> nat))" by simp
next
  fix s p :: string
  assume f: "find (\<lambda>p. starts_with p s) white_space = Some p"
  then have "p \<in> set white_space" and "starts_with p s"
    by (auto simp: find_Some_iff)
  then have "p \<noteq> []" and "take (length p) s = p"
    by (auto simp: white_space_def starts_with_def)
  then have "s \<noteq> []" by auto
  with \<open>p \<noteq> []\<close> show "(drop (length p) s, s) \<in> measure length" by simp
qed

declare trim_start.simps [simp del]

text \<open>The decimal digits, and the value of a string of them.\<close>

definition is_digit :: "char \<Rightarrow> bool" where
  "is_digit c = (48 \<le> (of_char c :: int) \<and> (of_char c :: int) \<le> 57)"

definition digits_value :: "string \<Rightarrow> int" where
  "digits_value ds = foldl (\<lambda>a c. 10 * a + (of_char c - 48)) 0 ds"

text \<open>An optional sign: whether it is a minus, and the rest.\<close>

fun take_sign :: "string \<Rightarrow> bool \<times> string" where
  "take_sign [] = (False, [])"
| "take_sign (c # s) =
     (if c = CHR ''-'' then (True, s) else if c = CHR ''+'' then (False, s) else (False, c # s))"

text \<open>
  \<^verbatim>\<open>parseInt(s, 10)\<close>: white space, a sign, then digits up to the first character that
  is none; \<^verbatim>\<open>NaN\<close> without a digit.
\<close>

definition parse_int10 :: "string \<Rightarrow> jsnum" where
  "parse_int10 input =
     (case take_sign (trim_start input) of (neg, s) \<Rightarrow>
        let z = takeWhile is_digit s
        in if z = [] then NaN
           else to_double (of_int (if neg then - digits_value z else digits_value z)))"

text \<open>The exponent part \<^verbatim>\<open>e\<close>, sign, digits, when all of it is there; otherwise none.\<close>

definition exponent_part :: "string \<Rightarrow> int" where
  "exponent_part s =
     (case s of
        [] \<Rightarrow> 0
      | c # t \<Rightarrow>
          if c = CHR ''e'' \<or> c = CHR ''E'' then
            (case take_sign t of (neg, u) \<Rightarrow>
               let ds = takeWhile is_digit u
               in if ds = [] then 0 else if neg then - digits_value ds else digits_value ds)
          else 0)"

text \<open>
  \<^verbatim>\<open>parseFloat(s)\<close>: white space, a sign, then \<^verbatim>\<open>Infinity\<close> or the longest prefix
  of the form digits, point, digits, exponent, with a digit before or after the point;
  \<^verbatim>\<open>NaN\<close> without one.
\<close>

definition parse_float :: "string \<Rightarrow> jsnum" where
  "parse_float input =
     (case take_sign (trim_start input) of (neg, s) \<Rightarrow>
        if starts_with ''Infinity'' s then (if neg then NegInf else PosInf)
        else
          let ip = takeWhile is_digit s;
              r = dropWhile is_digit s;
              dot = (r \<noteq> [] \<and> hd r = CHR ''.'');
              fp = (if dot then takeWhile is_digit (tl r) else []);
              rest = (if dot then dropWhile is_digit (tl r) else r)
          in if ip = [] \<and> fp = [] then NaN
             else
               let m = of_int (digits_value (ip @ fp)) * pow_int 10 (exponent_part rest - int (length fp))
               in to_double (if neg then - m else m))"

definition node_runtime :: runtime where
  "node_runtime =
     \<lparr>num_to_str = number_to_string, str_to_int = parse_int10, str_to_float = parse_float\<rparr>"

section \<open>Examples\<close>

text \<open>Inputs on which the theorems below are checked.\<close>

definition example_bytes :: "8 word list" where
  "example_bytes = replicate 32 42"

definition other_bytes :: "8 word list" where
  "other_bytes = replicate 32 7"

definition level_three :: body where
  "level_three = [(''level'', Num (Fin 3))]"

definition level_zero :: body where
  "level_zero = [(''level'', Num (Fin 0))]"

definition level_unprintable :: body where
  "level_unprintable = [(''level'', Obj [(''toString'', Num (Fin 1))])]"

definition no_sessions :: sessions where
  "no_sessions = Map.empty"

text \<open>The table after one session was created at level 3.\<close>

definition one_session :: sessions where
  "one_session = snd (create_session node_runtime no_sessions level_three example_bytes)"

definition example_history :: "request list" where
  "example_history = [Create_session level_three example_bytes]"

definition paid_notification :: body where
  "paid_notification =
     [(''payment_status'', Str ''Completed''), (''mc_gross'', Str ''1.99''),
      (''mc_currency'', Str ''USD''), (''custom'', Str (to_hex example_bytes)),
      (''txn_id'', Str ''61E67681CH3238416'')]"

definition pending_notification :: body where
  "pending_notification = AList.update ''payment_status'' (Str ''Pending'') paid_notification"

definition stray_notification :: body where
  "stray_notification = AList.update ''custom'' (Str (to_hex other_bytes)) paid_notification"

definition overpaid_notification :: body where
  "overpaid_notification = AList.update ''mc_gross'' (Str ''2.00'') paid_notification"

definition unprintable_notification :: body where
  "unprintable_notification = paid_notification @ [(''memo'', Obj [(''toString'', Null)])]"

text \<open>The table after the session of \<open>one_session\<close> was paid for.\<close>

definition paid_session :: sessions where
  "paid_session =
     snd (handle_payment_notification node_runtime one_session paid_notification
            (Verifier_replied 200 ''VERIFIED''))"

definition score_zero :: body where
  "score_zero = [(''score'', Num (Fin 0)), (''player_name'', Str ''ace'')]"

definition score_hundred :: body where
  "score_hundred = [(''score'', Num (Fin 100)), (''player_name'', Str ''ace'')]"

definition score_hundred_level_four :: body where
  "score_hundred_level_four = score_hundred @ [(''level'', Num (Fin 4))]"

definition store_created :: store_outcome where
  "store_created = Store_replied 200 ''{}'' (Some (Obj []))"

definition store_down :: store_outcome where
  "store_down = Store_threw ''connect ECONNREFUSED''"

definition store_unavailable :: store_outcome where
  "store_unavailable = Store_replied 503 ''upstream connect error'' None"

section \<open>Facts about the values\<close>

lemma str_strict_eq_iff: "str_strict_eq v s \<longleftrightarrow> v = Str s"
  by (cases v) (auto simp: str_strict_eq_def)

lemma num_strict_eq_price: "num_strict_eq a price \<longleftrightarrow> a = price"
  by (cases a) (auto simp: price_def)

lemma falsy_values:
  "\<not> truthy v \<longleftrightarrow> v \<in> {Undefined, Null, Bool False, Num NaN, Num (Fin 0), Str []}"
proof (cases v)
  case (Num n)
  then show ?thesis by (cases n) auto
qed auto

lemma truthy_defined: "truthy v \<Longrightarrow> \<not> is_undefined v"
  by (cases v) auto

lemma field_absent: "map_of b k = None \<Longrightarrow> field b k = Undefined"
  by (simp add: field_def)

lemma field_cases: "field b k = Undefined \<or> (k, field b k) \<in> set b"
  by (auto simp: field_def dest: map_of_SomeD split: option.splits)

lemma sessions_has_iff: "sessions_has tbl v \<longleftrightarrow> (\<exists>t s. v = Str t \<and> tbl t = Some s)"
  by (cases v) (auto simp: sessions_has_def sessions_get_def)

lemma status_res_json: "status (res_json c v) = c"
  by (simp add: res_json_def)

subsection \<open>Conversions to strings\<close>

lemma those_map_defined:
  assumes "those (map f xs) \<noteq> None" and "x \<in> set xs"
  shows "f x \<noteq> None"
  using assms by (induction xs) (auto split: option.splits)

lemma update_keeps_others:
  assumes "(k, v) \<in> set al" and "k \<noteq> k'"
  shows "(k, v) \<in> set (AList.update k' v' al)"
  using assms by (induction al) auto

text \<open>
  Once the request to the verifier could be encoded, converting a field of the
  notification to a string does not throw, so \<^verbatim>\<open>parseFloat\<close> returns.
\<close>

lemma encoded_field_converts:
  assumes "verification_request rt ipnData \<noteq> None" and "k \<noteq> ''cmd''"
  shows "js_to_string rt (field ipnData k) \<noteq> None"
proof -
  from field_cases [of ipnData k] show ?thesis
  proof
    assume "field ipnData k = Undefined"
    then show ?thesis by simp
  next
    assume "(k, field ipnData k) \<in> set ipnData"
    then
    have "(k, field ipnData k) \<in> set (AList.update ''cmd'' (Str ''_notify-validate'') ipnData)"
      using assms(2) by (rule update_keeps_others)
    with assms(1) have
      "map_option (Pair (fst (k, field ipnData k))) (js_to_string rt (snd (k, field ipnData k)))
         \<noteq> None"
      unfolding verification_request_def url_search_params_def Let_def
      by (rule those_map_defined)
    then show ?thesis by simp
  qed
qed

lemma encoded_parseFloat:
  assumes "verification_request rt ipnData \<noteq> None"
  shows "parseFloat rt (field ipnData ''mc_gross'') \<noteq> None"
  using encoded_field_converts [OF assms, of "''mc_gross''"] by (simp add: parseFloat_def)

subsection \<open>Tokens\<close>

lemma length_to_hex: "length (to_hex bs) = 2 * length bs"
  by (induction bs) (simp_all add: to_hex_def hex_byte_def)

lemma hex_digit_in: "hex_digit n \<in> set ''0123456789abcdef''"
proof -
  have "n mod 16 < length ''0123456789abcdef''" by simp
  then show ?thesis unfolding hex_digit_def by (rule nth_mem)
qed

lemma set_to_hex: "set (to_hex bs) \<subseteq> set ''0123456789abcdef''"
proof (induction bs)
  case Nil
  then show ?case by (simp add: to_hex_def)
next
  case (Cons b bs)
  have "set (hex_byte b) \<subseteq> set ''0123456789abcdef''"
    using hex_digit_in [of "unat b div 16"] hex_digit_in [of "unat b mod 16"]
    by (simp add: hex_byte_def)
  with Cons show ?case by (simp add: to_hex_def)
qed

text \<open>Different bytes give different tokens.\<close>

lemma hex_digit_inj:
  assumes "hex_digit m = hex_digit n"
  shows "m mod 16 = n mod 16"
proof -
  have "distinct ''0123456789abcdef''" by simp
  moreover have "m mod 16 < length ''0123456789abcdef''" and "n mod 16 < length ''0123456789abcdef''"
    by simp_all
  ultimately show ?thesis
    using assms unfolding hex_digit_def by (simp only: nth_eq_iff_index_eq)
qed

lemma hex_byte_inj:
  assumes "hex_byte b = hex_byte c"
  shows "b = c"
proof -
  have small: "unat b < 256" "unat c < 256"
    using unsigned_less [of b, where ?'a = nat] unsigned_less [of c, where ?'a = nat]
    by simp_all
  from assms have "(unat b div 16) mod 16 = (unat c div 16) mod 16"
    and "(unat b mod 16) mod 16 = (unat c mod 16) mod 16"
    by (auto simp: hex_byte_def dest: hex_digit_inj)
  with small have "unat b div 16 = unat c div 16" and "unat b mod 16 = unat c mod 16"
    by simp_all
  then have "unat b = unat c"
    by (metis div_mult_mod_eq)
  then show ?thesis by (simp add: word_unat_eq_iff)
qed

lemma to_hex_Cons: "to_hex (b # bs) = hex_byte b @ to_hex bs"
  by (simp add: to_hex_def)

lemma to_hex_inj: "to_hex bs = to_hex cs \<Longrightarrow> bs = cs"
proof (induction bs arbitrary: cs)
  case Nil
  then have "length (to_hex cs) = 0" by (simp add: to_hex_def)
  then show ?case by (simp add: length_to_hex)
next
  case (Cons b bs)
  then have "length (to_hex cs) = 2 * Suc (length bs)"
    by (metis length_to_hex length_Cons)
  then obtain c cs' where cs: "cs = c # cs'"
    by (cases cs) (auto simp: length_to_hex)
  with Cons.prems have "hex_byte b @ to_hex bs = hex_byte c @ to_hex cs'"
    by (simp add: to_hex_Cons)
  moreover have "length (hex_byte b) = length (hex_byte c)"
    by (simp add: hex_byte_def)
  ultimately have "hex_byte b = hex_byte c" and "to_hex bs = to_hex cs'"
    by simp_all
  with Cons.IH cs show ?case
    by (simp add: hex_byte_inj)
qed

subsection \<open>A verified notification, case by case\<close>

lemma verified_notification:
  assumes "verification_request rt ipnData \<noteq> None"
  shows "handle_payment_notification rt tbl ipnData (Verifier_replied st ''VERIFIED'') =
     (if field ipnData ''payment_status'' \<noteq> Str ''Completed''
      then (res_send 200 ''Payment not completed'', tbl)
      else if field ipnData ''mc_currency'' \<noteq> Str ''USD''
              \<or> parseFloat rt (field ipnData ''mc_gross'') \<noteq> Some price
      then (res_send 200 ''Invalid payment amount or currency'', tbl)
      else if \<not> truthy (field ipnData ''custom'') \<or> \<not> sessions_has tbl (field ipnData ''custom'')
      then (res_send 400 ''Invalid session'', tbl)
      else
        (case (field ipnData ''custom'', sessions_get tbl (field ipnData ''custom'')) of
           (Str t, Some s) \<Rightarrow> (res_send 200 ''OK'', tbl(t \<mapsto> s\<lparr>hasPurchasedContinue := True\<rparr>))
         | _ \<Rightarrow> (res_send 500 ''Server Error'', tbl)))"
proof -
  from assms obtain params where "verification_request rt ipnData = Some params"
    by auto
  moreover from encoded_parseFloat [OF assms] obtain amount
    where "parseFloat rt (field ipnData ''mc_gross'') = Some amount"
    by auto
  ultimately show ?thesis
    by (simp add: handle_payment_notification_def str_strict_eq_iff num_strict_eq_price Let_def)
qed

text \<open>The handler never looks at the status of the verifier's reply.\<close>

lemma verifier_status_ignored:
  "handle_payment_notification rt tbl ipnData (Verifier_replied st txt)
     = handle_payment_notification rt tbl ipnData (Verifier_replied st' txt)"
  by (simp add: handle_payment_notification_def split: option.splits)

lemma notification_keeps_keys:
  "snd (handle_payment_notification rt tbl ipnData outcome) t = None \<longleftrightarrow> tbl t = None"
  by (auto simp: handle_payment_notification_def sessions_get_def Let_def
      split: verifier_outcome.splits jsval.splits option.splits)

lemma notification_keeps_purchased:
  assumes "tbl t = Some s" and "hasPurchasedContinue s"
  shows "snd (handle_payment_notification rt tbl b outcome) t = Some s"
  using assms
  by (auto simp: handle_payment_notification_def sessions_get_def Let_def
      split: verifier_outcome.splits jsval.splits option.splits)

subsection \<open>The tables the service reaches\<close>

lemma reachable_key_length:
  assumes "reachable rt tbl" and "tbl t = Some s"
  shows "length t = 64"
  using assms
proof (induction arbitrary: s rule: reachable.induct)
  case start
  then show ?case by simp
next
  case (step tbl req)
  show ?case
  proof (cases req)
    case (Create_session b rnd)
    with step.hyps(2) have len: "length (to_hex rnd) = 64"
      by (simp add: draws_32_def length_to_hex)
    from step.prems Create_session have "t = to_hex rnd \<or> tbl t = Some s"
      by (auto simp: handle_def create_session_def Let_def split: if_splits option.splits)
    with len step.IH show ?thesis by auto
  next
    case (Payment_notification b outcome)
    with step.prems have "tbl t \<noteq> None"
      using notification_keeps_keys [of rt tbl b outcome t] by (auto simp: handle_def)
    with step.IH show ?thesis by auto
  next
    case (Check_continue token)
    with step.prems have "tbl t = Some s"
      by (simp add: handle_def check_continue_def split: if_splits option.splits)
    with step.IH show ?thesis by auto
  qed
qed

lemma reachable_no_empty_key: "reachable rt tbl \<Longrightarrow> tbl [] = None"
  using reachable_key_length [of rt tbl "[]"] by (cases "tbl []") auto

subsection \<open>Histories\<close>

lemma run_snoc: "run rt (reqs @ [req]) = snd (handle rt (run rt reqs) req)"
  by (simp add: run_def)

lemma drawn_snoc:
  "drawn (reqs @ [req]) = drawn reqs @ (case req of Create_session b rnd \<Rightarrow> [rnd] | _ \<Rightarrow> [])"
  by (simp add: drawn_def)

text \<open>Every key of the table is the token of bytes drawn before.\<close>

lemma run_keys_drawn:
  assumes "run rt reqs t = Some s"
  shows "\<exists>rnd \<in> set (drawn reqs). t = to_hex rnd"
  using assms
proof (induction reqs arbitrary: s rule: rev_induct)
  case Nil
  then show ?case by (simp add: run_def)
next
  case (snoc req reqs)
  show ?case
  proof (cases req)
    case (Create_session b rnd)
    from snoc.prems Create_session have "t = to_hex rnd \<or> run rt reqs t = Some s"
      by (auto simp: run_snoc handle_def create_session_def Let_def
          split: if_splits option.splits)
    with snoc.IH Create_session show ?thesis
      by (auto simp: drawn_snoc)
  next
    case (Payment_notification b outcome)
    with snoc.prems have "run rt reqs t \<noteq> None"
      using notification_keeps_keys [of rt "run rt reqs" b outcome t]
      by (auto simp: run_snoc handle_def)
    with snoc.IH Payment_notification show ?thesis
      by (auto simp: drawn_snoc)
  next
    case (Check_continue token)
    with snoc.prems have "run rt reqs t = Some s"
      by (simp add: run_snoc handle_def check_continue_def split: if_splits option.splits)
    with snoc.IH Check_continue show ?thesis
      by (auto simp: drawn_snoc)
  qed
qed

lemma new_draw_new_token:
  assumes "rnd \<notin> set (drawn reqs)"
  shows "run rt reqs (to_hex rnd) = None"
proof (cases "run rt reqs (to_hex rnd)")
  case None
  then show ?thesis .
next
  case (Some s)
  from run_keys_drawn [OF this] obtain rnd'
    where "rnd' \<in> set (drawn reqs)" and "to_hex rnd = to_hex rnd'"
    by auto
  with assms show ?thesis
    by (auto dest: to_hex_inj)
qed

subsection \<open>The examples, evaluated\<close>

lemma floor_numeral_div_rat: "\<lfloor>(numeral a :: rat) / numeral b\<rfloor> = numeral a div numeral b"
  using floor_divide_of_int_eq [of "numeral a" "numeral b", where ?'a = rat] by simp

lemma to_double_3: "to_double 3 = Fin 3"
  unfolding to_double_def round_half_even_def floor_log_def pow_int_def Let_def
  by (simp add: count_digits.simps)

lemma to_double_199: "to_double (199 / 100) = price"
  unfolding to_double_def round_half_even_def floor_log_def pow_int_def Let_def
  by (simp add: count_digits.simps price_def floor_numeral_div_rat)

lemma positive_to_string_3: "positive_to_string 3 = ''3''"
  unfolding positive_to_string_def shortest_digits_def floor_log_def
  by (simp add: digits_at_def to_double_3 count_digits.simps pow_int_def Let_def
      digits_of.simps digit_char_def upto.simps)

lemma trim_start_3: "trim_start ''3'' = ''3''"
  by (subst trim_start.simps) (simp add: white_space_def starts_with_def)

lemma trim_start_199: "trim_start ''1.99'' = ''1.99''"
  by (subst trim_start.simps) (simp add: white_space_def starts_with_def)

lemma parseInt_3: "parseInt node_runtime (Num (Fin 3)) = Some (Fin 3)"
  by (simp add: parseInt_def node_runtime_def parse_int10_def positive_to_string_3 trim_start_3
      is_digit_def digits_value_def to_double_3)

lemma parseFloat_199: "parseFloat node_runtime (Str ''1.99'') = Some price"
  by (simp add: parseFloat_def node_runtime_def parse_float_def trim_start_199 is_digit_def
      digits_value_def exponent_part_def starts_with_def pow_int_def to_double_199)

lemma to_double_2: "to_double 2 = Fin 2"
  unfolding to_double_def round_half_even_def floor_log_def pow_int_def Let_def
  by (simp add: count_digits.simps)

lemma trim_start_200: "trim_start ''2.00'' = ''2.00''"
  by (subst trim_start.simps) (simp add: white_space_def starts_with_def)

lemma parseFloat_200: "parseFloat node_runtime (Str ''2.00'') = Some (Fin 2)"
  by (simp add: parseFloat_def node_runtime_def parse_float_def trim_start_200 is_digit_def
      digits_value_def exponent_part_def starts_with_def pow_int_def to_double_2)

lemma parseInt_unprintable: "parseInt node_runtime (Obj [(''toString'', Num (Fin 1))]) = None"
  by (simp add: parseInt_def)

lemma example_tokens_differ: "to_hex example_bytes \<noteq> to_hex other_bytes"
  unfolding example_bytes_def other_bytes_def by code_simp

lemma example_token_not_empty: "to_hex example_bytes \<noteq> []"
  using length_to_hex [of example_bytes] by (auto simp: example_bytes_def)

lemma one_session_eq:
  "one_session = [to_hex example_bytes \<mapsto> \<lparr>level = Fin 3, hasPurchasedContinue = False\<rparr>]"
  by (simp add: one_session_def create_session_def level_three_def field_def parseInt_3 Let_def
      no_sessions_def)

lemma one_session_reachable: "reachable node_runtime one_session"
proof -
  have "draws_32 (Create_session level_three example_bytes)"
    by (simp add: draws_32_def example_bytes_def)
  from reachable.step [OF reachable.start this, of node_runtime]
  show ?thesis by (simp add: handle_def one_session_def no_sessions_def)
qed

lemma paid_notification_fields:
  "field paid_notification ''payment_status'' = Str ''Completed''"
  "field paid_notification ''mc_currency'' = Str ''USD''"
  "field paid_notification ''mc_gross'' = Str ''1.99''"
  "field paid_notification ''custom'' = Str (to_hex example_bytes)"
  by (simp_all add: paid_notification_def field_def)

lemma pending_notification_fields:
  "field pending_notification ''payment_status'' = Str ''Pending''"
  by (simp add: pending_notification_def paid_notification_def field_def)

lemma stray_notification_fields:
  "field stray_notification ''payment_status'' = Str ''Completed''"
  "field stray_notification ''mc_currency'' = Str ''USD''"
  "field stray_notification ''mc_gross'' = Str ''1.99''"
  "field stray_notification ''custom'' = Str (to_hex other_bytes)"
  by (simp_all add: stray_notification_def paid_notification_def field_def)

lemma overpaid_notification_fields:
  "field overpaid_notification ''payment_status'' = Str ''Completed''"
  "field overpaid_notification ''mc_currency'' = Str ''USD''"
  "field overpaid_notification ''mc_gross'' = Str ''2.00''"
  "field overpaid_notification ''custom'' = Str (to_hex example_bytes)"
  by (simp_all add: overpaid_notification_def paid_notification_def field_def)

lemma example_requests_encode:
  "verification_request node_runtime paid_notification \<noteq> None"
  "verification_request node_runtime pending_notification \<noteq> None"
  "verification_request node_runtime stray_notification \<noteq> None"
  "verification_request node_runtime overpaid_notification \<noteq> None"
  by (simp_all add: verification_request_def url_search_params_def paid_notification_def
      pending_notification_def stray_notification_def overpaid_notification_def)

lemma unprintable_request_throws:
  "verification_request node_runtime unprintable_notification = None"
  by (simp add: verification_request_def url_search_params_def unprintable_notification_def
      paid_notification_def)

lemma paid_session_eq:
  "paid_session = [to_hex example_bytes \<mapsto> \<lparr>level = Fin 3, hasPurchasedContinue = True\<rparr>]"
  by (simp add: paid_session_def verified_notification example_requests_encode
      paid_notification_fields parseFloat_199 one_session_eq sessions_has_def sessions_get_def
      example_token_not_empty)

lemma example_history_table: "run node_runtime example_history = one_session"
  by (simp add: run_def example_history_def handle_def one_session_def no_sessions_def)

lemma paid_session_reachable: "reachable node_runtime paid_session"
proof -
  have "draws_32 (Payment_notification paid_notification (Verifier_replied 200 ''VERIFIED''))"
    by (simp add: draws_32_def)
  from reachable.step [OF one_session_reachable this]
  show ?thesis by (simp add: handle_def paid_session_def)
qed

section \<open>Payment notifications\<close>

text \<open>
  C1. When the verifier's reply is not exactly the text \<^verbatim>\<open>VERIFIED\<close>, whatever its
  status, or when the round trip throws, the session table after the call is the table
  before it. The answer is 400 for a reply that is not \<^verbatim>\<open>VERIFIED\<close>, and 500 when the
  round trip, or already the encoding of the request to the verifier, throws.
\<close>

theorem unverified_notification_changes_nothing:
  "outcome = Verifier_threw \<or> (\<exists>st txt. outcome = Verifier_replied st txt \<and> txt \<noteq> ''VERIFIED'')
   \<Longrightarrow> snd (handle_payment_notification rt tbl ipnData outcome) = tbl
       \<and> status (fst (handle_payment_notification rt tbl ipnData outcome))
           = (if outcome = Verifier_threw \<or> verification_request rt ipnData = None
              then 500 else 400)"
  by (auto simp: handle_payment_notification_def res_send_def split: option.splits)

theorem unverified_notification_changes_nothing_witness:
  "snd (handle_payment_notification node_runtime one_session paid_notification
          (Verifier_replied 200 ''INVALID'')) = one_session
   \<and> status (fst (handle_payment_notification node_runtime one_session paid_notification
          (Verifier_replied 200 ''INVALID''))) = 400
   \<and> snd (handle_payment_notification node_runtime one_session paid_notification
          Verifier_threw) = one_session
   \<and> status (fst (handle_payment_notification node_runtime one_session paid_notification
          Verifier_threw)) = 500
   \<and> snd (handle_payment_notification node_runtime one_session unprintable_notification
          (Verifier_replied 200 ''INVALID'')) = one_session
   \<and> status (fst (handle_payment_notification node_runtime one_session unprintable_notification
          (Verifier_replied 200 ''INVALID''))) = 500"
  using unverified_notification_changes_nothing
          [of "Verifier_replied 200 ''INVALID''" node_runtime one_session paid_notification]
        unverified_notification_changes_nothing
          [of Verifier_threw node_runtime one_session paid_notification]
        unverified_notification_changes_nothing
          [of "Verifier_replied 200 ''INVALID''" node_runtime one_session unprintable_notification]
        example_requests_encode(1) unprintable_request_throws
  by simp

text \<open>
  C3. A verified notification whose \<^verbatim>\<open>payment_status\<close> is not \<^verbatim>\<open>Completed\<close>, or whose
  currency or amount is not the configured one, is answered with 200 and changes no
  session. A verified notification that passes these checks but whose \<^verbatim>\<open>custom\<close> field
  is not the token of a session is answered with 400 and changes no session.
\<close>

theorem rejected_payment_outcomes:
  assumes "verification_request rt ipnData \<noteq> None"
    and "outcome = Verifier_replied st ''VERIFIED''"
  shows "(field ipnData ''payment_status'' \<noteq> Str ''Completed''
            \<or> field ipnData ''mc_currency'' \<noteq> Str ''USD''
            \<or> parseFloat rt (field ipnData ''mc_gross'') \<noteq> Some price
          \<longrightarrow> status (fst (handle_payment_notification rt tbl ipnData outcome)) = 200
              \<and> snd (handle_payment_notification rt tbl ipnData outcome) = tbl)
       \<and> (field ipnData ''payment_status'' = Str ''Completed''
            \<and> field ipnData ''mc_currency'' = Str ''USD''
            \<and> parseFloat rt (field ipnData ''mc_gross'') = Some price
            \<and> \<not> sessions_has tbl (field ipnData ''custom'')
          \<longrightarrow> status (fst (handle_payment_notification rt tbl ipnData outcome)) = 400
              \<and> snd (handle_payment_notification rt tbl ipnData outcome) = tbl)"
  unfolding assms(2) verified_notification [OF assms(1)] by (simp add: res_send_def)

theorem rejected_payment_outcomes_witness:
  "status (fst (handle_payment_notification node_runtime one_session pending_notification
          (Verifier_replied 200 ''VERIFIED''))) = 200
   \<and> snd (handle_payment_notification node_runtime one_session pending_notification
          (Verifier_replied 200 ''VERIFIED'')) = one_session
   \<and> status (fst (handle_payment_notification node_runtime one_session stray_notification
          (Verifier_replied 200 ''VERIFIED''))) = 400
   \<and> snd (handle_payment_notification node_runtime one_session stray_notification
          (Verifier_replied 200 ''VERIFIED'')) = one_session"
proof -
  have stray: "\<not> sessions_has one_session (field stray_notification ''custom'')"
    using example_tokens_differ
    by (auto simp: stray_notification_fields sessions_has_iff one_session_eq)
  from stray
    rejected_payment_outcomes [OF example_requests_encode(2), of
      "Verifier_replied 200 ''VERIFIED''" 200 one_session]
    rejected_payment_outcomes [OF example_requests_encode(3), of
      "Verifier_replied 200 ''VERIFIED''" 200 one_session]
  show ?thesis
    by (simp add: pending_notification_fields stray_notification_fields parseFloat_199)
qed

text \<open>
  C4. For a verified notification with \<^verbatim>\<open>payment_status\<close> \<^verbatim>\<open>Completed\<close> whose
  \<^verbatim>\<open>custom\<close> field is the token of a session: if \<^verbatim>\<open>mc_currency\<close> is \<^verbatim>\<open>USD\<close> and
  \<^verbatim>\<open>parseFloat(mc_gross)\<close> is the number \<^verbatim>\<open>1.99\<close>, the session's flag is set and
  nothing else changes; for any other currency or amount the table is unchanged.
\<close>

theorem purchase_granted_iff_price_matches:
  assumes "reachable rt tbl"
    and "verification_request rt ipnData \<noteq> None"
    and "outcome = Verifier_replied st ''VERIFIED''"
    and "field ipnData ''payment_status'' = Str ''Completed''"
    and "field ipnData ''custom'' = Str t"
    and "tbl t = Some s"
  shows "handle_payment_notification rt tbl ipnData outcome =
           (if field ipnData ''mc_currency'' = Str ''USD''
               \<and> parseFloat rt (field ipnData ''mc_gross'') = Some price
            then (res_send 200 ''OK'', tbl(t \<mapsto> s\<lparr>hasPurchasedContinue := True\<rparr>))
            else (res_send 200 ''Invalid payment amount or currency'', tbl))"
proof -
  from assms(1,6) have "t \<noteq> []"
    using reachable_no_empty_key [of rt tbl] by auto
  with assms(4-6) show ?thesis
    unfolding assms(3) verified_notification [OF assms(2)]
    by (simp add: sessions_has_def sessions_get_def)
qed

theorem purchase_granted_iff_price_matches_witness:
  "handle_payment_notification node_runtime one_session paid_notification
     (Verifier_replied 200 ''VERIFIED'')
   = (res_send 200 ''OK'', paid_session)
   \<and> handle_payment_notification node_runtime one_session overpaid_notification
       (Verifier_replied 200 ''VERIFIED'')
     = (res_send 200 ''Invalid payment amount or currency'', one_session)"
  using purchase_granted_iff_price_matches [OF one_session_reachable example_requests_encode(1),
          of "Verifier_replied 200 ''VERIFIED''" 200 "to_hex example_bytes"
          "\<lparr>level = Fin 3, hasPurchasedContinue = False\<rparr>"]
        purchase_granted_iff_price_matches [OF one_session_reachable example_requests_encode(4),
          of "Verifier_replied 200 ''VERIFIED''" 200 "to_hex example_bytes"
          "\<lparr>level = Fin 3, hasPurchasedContinue = False\<rparr>"]
  by (simp add: paid_notification_fields overpaid_notification_fields parseFloat_199
      parseFloat_200 one_session_eq paid_session_eq price_def)

text \<open>
  C10. Once a verified, completed notification of the right currency and amount has set
  the flag of the session its \<^verbatim>\<open>custom\<close> field names, the same notification, verified
  again, is answered \<^verbatim>\<open>200 OK\<close> and leaves the whole table as it is.
\<close>

theorem replayed_notification_changes_nothing:
  assumes "reachable rt tbl"
    and "verification_request rt ipnData \<noteq> None"
    and "field ipnData ''payment_status'' = Str ''Completed''"
    and "field ipnData ''mc_currency'' = Str ''USD''"
    and "parseFloat rt (field ipnData ''mc_gross'') = Some price"
    and "field ipnData ''custom'' = Str t"
    and "tbl t = Some s"
    and "tbl' = snd (handle_payment_notification rt tbl ipnData (Verifier_replied st ''VERIFIED''))"
  shows "(\<exists>s'. tbl' t = Some s' \<and> hasPurchasedContinue s')
       \<and> handle_payment_notification rt tbl' ipnData (Verifier_replied st' ''VERIFIED'')
           = (res_send 200 ''OK'', tbl')"
proof -
  from assms(1,7) have "t \<noteq> []"
    using reachable_no_empty_key [of rt tbl] by auto
  with assms(3-7) have first: "tbl' = tbl(t \<mapsto> s\<lparr>hasPurchasedContinue := True\<rparr>)"
    unfolding assms(8) verified_notification [OF assms(2)]
    by (simp add: sessions_has_def sessions_get_def)
  have "tbl'(t \<mapsto> s\<lparr>hasPurchasedContinue := True\<rparr>) = tbl'"
    unfolding first by simp
  with \<open>t \<noteq> []\<close> assms(3-6) first show ?thesis
    unfolding verified_notification [OF assms(2)]
    by (simp add: sessions_has_def sessions_get_def)
qed

theorem replayed_notification_changes_nothing_witness:
  "(\<exists>s'. paid_session (to_hex example_bytes) = Some s' \<and> hasPurchasedContinue s')
   \<and> handle_payment_notification node_runtime paid_session paid_notification
        (Verifier_replied 200 ''VERIFIED'')
      = (res_send 200 ''OK'', paid_session)"
  using replayed_notification_changes_nothing
          [OF one_session_reachable example_requests_encode(1), of
          "to_hex example_bytes" "\<lparr>level = Fin 3, hasPurchasedContinue = False\<rparr>"
          paid_session 200 200]
  by (simp add: paid_notification_fields parseFloat_199 one_session_eq paid_session_def)

section \<open>The purchased flag\<close>

text \<open>
  C2, as the claim states it, fails: on a table the service reaches, with a session that
  is paid for, a \<^verbatim>\<open>create-session\<close> request whose draw repeats the bytes of that
  session's token stores a new session under the same token, with the flag unset.
\<close>

theorem repeated_draw_resets_flag:
  "reachable node_runtime paid_session
   \<and> paid_session (to_hex example_bytes)
       = Some \<lparr>level = Fin 3, hasPurchasedContinue = True\<rparr>
   \<and> snd (handle node_runtime paid_session (Create_session level_three example_bytes))
         (to_hex example_bytes)
       = Some \<lparr>level = Fin 3, hasPurchasedContinue = False\<rparr>"
  using paid_session_reachable
  by (simp add: paid_session_eq handle_def create_session_def level_three_def field_def
      parseInt_3 Let_def)

text \<open>
  C2, amended. A session whose flag is set keeps it through every operation on the
  table, provided that a \<^verbatim>\<open>create-session\<close> request generates a token that is no
  key of the table: creating a session, a payment notification, and a check all leave
  the session as it is.
\<close>

theorem purchased_never_reverts:
  assumes "tbl t = Some s" and "hasPurchasedContinue s" and "token_is_new tbl req"
  shows "\<exists>s'. snd (handle rt tbl req) t = Some s' \<and> hasPurchasedContinue s' \<and> level s' = level s"
proof (cases req)
  case (Create_session b rnd)
  with assms(1,3) have "to_hex rnd \<noteq> t"
    by (auto simp: token_is_new_def)
  with assms(1,2) Create_session show ?thesis
    by (simp add: handle_def create_session_def Let_def split: option.splits)
next
  case (Payment_notification b outcome)
  with notification_keeps_purchased [of tbl t s rt b outcome] assms(1,2) show ?thesis
    by (simp add: handle_def)
next
  case (Check_continue token)
  with assms(1,2) show ?thesis
    by (simp add: handle_def check_continue_def split: option.splits)
qed

theorem purchased_never_reverts_witness:
  "(\<exists>s'. snd (handle node_runtime paid_session (Create_session level_three other_bytes))
            (to_hex example_bytes) = Some s'
         \<and> hasPurchasedContinue s' \<and> level s' = Fin 3)
   \<and> (\<exists>s'. snd (handle node_runtime paid_session
              (Payment_notification pending_notification (Verifier_replied 200 ''VERIFIED'')))
            (to_hex example_bytes) = Some s'
         \<and> hasPurchasedContinue s' \<and> level s' = Fin 3)
   \<and> (\<exists>s'. snd (handle node_runtime paid_session (Check_continue (to_hex example_bytes)))
            (to_hex example_bytes) = Some s'
         \<and> hasPurchasedContinue s' \<and> level s' = Fin 3)"
proof -
  let ?s = "\<lparr>level = Fin 3, hasPurchasedContinue = True\<rparr>"
  have found: "paid_session (to_hex example_bytes) = Some ?s"
    by (simp add: paid_session_eq)
  have flag: "hasPurchasedContinue ?s"
    by simp
  have new: "token_is_new paid_session (Create_session level_three other_bytes)"
    using example_tokens_differ by (auto simp: token_is_new_def paid_session_eq)
  have others:
    "token_is_new paid_session
       (Payment_notification pending_notification (Verifier_replied 200 ''VERIFIED''))"
    "token_is_new paid_session (Check_continue (to_hex example_bytes))"
    by (simp_all add: token_is_new_def)
  from purchased_never_reverts [OF found flag new, of node_runtime]
    purchased_never_reverts [OF found flag others(1), of node_runtime]
    purchased_never_reverts [OF found flag others(2), of node_runtime]
  show ?thesis by simp
qed

section \<open>Creating and checking sessions\<close>

text \<open>
  C5, as the claim states it, fails twice. The level 0 is answered 400, and no session
  is found under the token its draw would have given. And the token of an accepted
  request is not new when the draw repeats bytes drawn before: it is then a key of the
  table already.
\<close>

theorem created_token_not_always_fresh:
  "fst (create_session node_runtime no_sessions level_zero example_bytes)
     = Reply 400 (Json (Obj [(''error'', Str ''Level is required'')]))
   \<and> fst (check_continue (snd (create_session node_runtime no_sessions level_zero example_bytes))
            (to_hex example_bytes))
     = Reply 404 (Json (Obj [(''error'', Str ''Session not found'')]))
   \<and> one_session (to_hex example_bytes)
     = Some \<lparr>level = Fin 3, hasPurchasedContinue = False\<rparr>
   \<and> fst (create_session node_runtime one_session level_three example_bytes)
     = Reply 200 (Json (Obj [(''sessionToken'', Str (to_hex example_bytes))]))"
  by (simp add: level_zero_def level_three_def create_session_def check_continue_def field_def
      res_json_def no_sessions_def one_session_eq parseInt_3 Let_def)

text \<open>
  C5, amended. After any history of requests, for a level that is truthy and that
  \<^verbatim>\<open>parseInt\<close> turns into a finite number, and for a draw of 32 bytes that were not
  drawn before: the token, the 64 hex digits of the bytes, is no key of the table;
  \<^verbatim>\<open>create-session\<close> answers 200 with it and leaves every other key as it was; and
  \<^verbatim>\<open>check-continue\<close> on that token, on the table left, answers 200 with
  \<^verbatim>\<open>hasPurchasedContinue: false\<close> and the level \<^verbatim>\<open>parseInt(level, 10)\<close>.
\<close>

theorem created_session_resolves:
  assumes "truthy (field b ''level'')"
    and "parseInt rt (field b ''level'') = Some n"
    and "is_finite n"
    and "length rnd = 32"
    and "rnd \<notin> set (drawn reqs)"
  shows "run rt reqs (to_hex rnd) = None
       \<and> fst (create_session rt (run rt reqs) b rnd)
           = Reply 200 (Json (Obj [(''sessionToken'', Str (to_hex rnd))]))
       \<and> length (to_hex rnd) = 64
       \<and> set (to_hex rnd) \<subseteq> set ''0123456789abcdef''
       \<and> (\<forall>t. t \<noteq> to_hex rnd \<longrightarrow>
            snd (create_session rt (run rt reqs) b rnd) t = run rt reqs t)
       \<and> fst (check_continue (snd (create_session rt (run rt reqs) b rnd)) (to_hex rnd))
           = Reply 200 (Json (Obj [(''hasPurchasedContinue'', Bool False), (''level'', Num n)]))"
proof -
  from assms(4) have len: "length (to_hex rnd) = 64"
    by (simp add: length_to_hex)
  then have "to_hex rnd \<noteq> []" by auto
  with assms(1-3) have
    "fst (create_session rt (run rt reqs) b rnd)
       = Reply 200 (Json (Obj [(''sessionToken'', Str (to_hex rnd))]))"
    "\<forall>t. t \<noteq> to_hex rnd \<longrightarrow> snd (create_session rt (run rt reqs) b rnd) t = run rt reqs t"
    "fst (check_continue (snd (create_session rt (run rt reqs) b rnd)) (to_hex rnd))
       = Reply 200 (Json (Obj [(''hasPurchasedContinue'', Bool False), (''level'', Num n)]))"
    by (simp_all add: create_session_def check_continue_def res_json_def Let_def)
  with len set_to_hex [of rnd] new_draw_new_token [OF assms(5), of rt] show ?thesis
    by blast
qed

theorem created_session_resolves_witness:
  "run node_runtime example_history (to_hex other_bytes) = None
   \<and> fst (create_session node_runtime (run node_runtime example_history) level_three other_bytes)
     = Reply 200 (Json (Obj [(''sessionToken'', Str (to_hex other_bytes))]))
   \<and> length (to_hex other_bytes) = 64
   \<and> snd (create_session node_runtime (run node_runtime example_history) level_three other_bytes)
        (to_hex example_bytes)
     = Some \<lparr>level = Fin 3, hasPurchasedContinue = False\<rparr>
   \<and> fst (check_continue
            (snd (create_session node_runtime (run node_runtime example_history) level_three
                    other_bytes))
            (to_hex other_bytes))
     = Reply 200 (Json (Obj [(''hasPurchasedContinue'', Bool False), (''level'', Num (Fin 3))]))"
proof -
  have "truthy (field level_three ''level'')"
    and "parseInt node_runtime (field level_three ''level'') = Some (Fin 3)"
    and "is_finite (Fin 3)"
    and "length other_bytes = 32"
    and "other_bytes \<notin> set (drawn example_history)"
    by (simp_all add: level_three_def field_def parseInt_3 example_bytes_def other_bytes_def
        drawn_def example_history_def)
  from created_session_resolves [OF this] example_tokens_differ
  show ?thesis
    by (simp add: example_history_table one_session_eq)
qed

text \<open>
  C6, as the claim states it, fails: a body whose \<^verbatim>\<open>level\<close> is the number 0 has the
  field, and is answered 400.
\<close>

theorem level_zero_is_rejected:
  "map_of level_zero ''level'' = Some (Num (Fin 0))
   \<and> create_session node_runtime no_sessions level_zero example_bytes
       = (Reply 400 (Json (Obj [(''error'', Str ''Level is required'')])), no_sessions)"
  by (simp add: level_zero_def create_session_def field_def res_json_def)

text \<open>
  C6, amended. \<^verbatim>\<open>create-session\<close> answers 400 exactly when \<^verbatim>\<open>level\<close> is falsy: absent
  (\<^verbatim>\<open>undefined\<close>), \<^verbatim>\<open>null\<close>, \<^verbatim>\<open>false\<close>, \<^verbatim>\<open>NaN\<close>, 0 or the empty string; then the
  table is unchanged. For a truthy level that \<^verbatim>\<open>parseInt\<close> converts, it answers 200 with
  the token and stores, under that token, a session with the parsed level and the flag
  unset. For a truthy level on which \<^verbatim>\<open>parseInt\<close> throws, the answer is Express's 500 and
  the table is unchanged.
\<close>

theorem create_session_requires_truthy_level:
  "(status (fst (create_session rt tbl b rnd)) = 400
      \<longleftrightarrow> field b ''level'' \<in> {Undefined, Null, Bool False, Num NaN, Num (Fin 0), Str []})
   \<and> (\<not> truthy (field b ''level'') \<longrightarrow> snd (create_session rt tbl b rnd) = tbl)
   \<and> (\<forall>n. truthy (field b ''level'') \<and> parseInt rt (field b ''level'') = Some n \<longrightarrow>
        create_session rt tbl b rnd =
          (Reply 200 (Json (Obj [(''sessionToken'', Str (to_hex rnd))])),
           tbl(to_hex rnd \<mapsto> \<lparr>level = n, hasPurchasedContinue = False\<rparr>)))
   \<and> (truthy (field b ''level'') \<and> parseInt rt (field b ''level'') = None \<longrightarrow>
        create_session rt tbl b rnd = (Reply 500 Error_page, tbl))"
  using falsy_values [of "field b ''level''"]
  by (auto simp: create_session_def res_json_def Let_def split: option.splits)

theorem create_session_requires_truthy_level_witness:
  "status (fst (create_session node_runtime no_sessions level_zero example_bytes)) = 400
   \<and> snd (create_session node_runtime no_sessions level_zero example_bytes) = no_sessions
   \<and> create_session node_runtime no_sessions level_three example_bytes =
        (Reply 200 (Json (Obj [(''sessionToken'', Str (to_hex example_bytes))])),
         no_sessions(to_hex example_bytes \<mapsto> \<lparr>level = Fin 3, hasPurchasedContinue = False\<rparr>))
   \<and> create_session node_runtime no_sessions level_unprintable example_bytes
        = (Reply 500 Error_page, no_sessions)"
  using create_session_requires_truthy_level [of node_runtime no_sessions level_zero example_bytes]
    create_session_requires_truthy_level [of node_runtime no_sessions level_three example_bytes]
    create_session_requires_truthy_level
      [of node_runtime no_sessions level_unprintable example_bytes]
  by (simp add: level_zero_def level_three_def level_unprintable_def field_def parseInt_3
      parseInt_unprintable)

text \<open>
  C7. On a table the service can reach, \<^verbatim>\<open>check-continue\<close> answers 404, with an error
  and no session data, exactly when the token is not a key of the table; for a key it
  answers 200 with the flag and the level of that session; and in every case the table
  is unchanged.
\<close>

theorem check_continue_not_found_iff_unknown:
  assumes "reachable rt tbl"
  shows "(status (fst (check_continue tbl token)) = 404 \<longleftrightarrow> tbl token = None)
       \<and> (tbl token = None \<longrightarrow>
            fst (check_continue tbl token)
              = Reply 404 (Json (Obj [(''error'', Str ''Session not found'')])))
       \<and> (\<forall>s. tbl token = Some s \<longrightarrow>
            fst (check_continue tbl token)
              = res_json 200 (Obj [(''hasPurchasedContinue'', Bool (hasPurchasedContinue s)),
                                   (''level'', Num (level s))]))
       \<and> snd (check_continue tbl token) = tbl"
proof (cases "token = []")
  case True
  with reachable_no_empty_key [OF assms] show ?thesis
    by (simp add: check_continue_def res_json_def)
next
  case False
  then show ?thesis
    by (auto simp: check_continue_def res_json_def split: option.splits)
qed

theorem check_continue_not_found_iff_unknown_witness:
  "fst (check_continue one_session (to_hex other_bytes))
     = Reply 404 (Json (Obj [(''error'', Str ''Session not found'')]))
   \<and> snd (check_continue one_session (to_hex other_bytes)) = one_session
   \<and> fst (check_continue one_session (to_hex example_bytes))
     = Reply 200 (Json (Obj [(''hasPurchasedContinue'', Bool False), (''level'', Num (Fin 3))]))
   \<and> snd (check_continue one_session (to_hex example_bytes)) = one_session"
proof -
  have "one_session (to_hex other_bytes) = None"
    and "one_session (to_hex example_bytes)
           = Some \<lparr>level = Fin 3, hasPurchasedContinue = False\<rparr>"
    using example_tokens_differ by (auto simp: one_session_eq)
  with check_continue_not_found_iff_unknown [OF one_session_reachable, of "to_hex other_bytes"]
    check_continue_not_found_iff_unknown [OF one_session_reachable, of "to_hex example_bytes"]
  show ?thesis by (simp add: res_json_def)
qed

section \<open>Scores\<close>

text \<open>
  C8, as the claim states it, fails: a body with the score 0 and a player name has both
  fields, and is answered 400 without a request to the store.
\<close>

theorem score_zero_is_rejected:
  "map_of score_zero ''score'' = Some (Num (Fin 0))
   \<and> map_of score_zero ''player_name'' = Some (Str ''ace'')
   \<and> submit_score score_zero store_created
       = (Reply 400 (Json (Obj [(''error'', Str ''Score and player_name are required'')])), None)"
  by (simp add: score_zero_def submit_score_def field_def res_json_def)

text \<open>
  C8, amended. \<^verbatim>\<open>POST /api/scores\<close> answers 400, and sends nothing to the store,
  exactly when \<^verbatim>\<open>score\<close> or \<^verbatim>\<open>player_name\<close> is falsy (absent, \<^verbatim>\<open>null\<close>, \<^verbatim>\<open>false\<close>,
  \<^verbatim>\<open>NaN\<close>, 0 or the empty string). Otherwise it sends the store the JSON of exactly
  \<^verbatim>\<open>score\<close>, \<^verbatim>\<open>player_name\<close> and \<^verbatim>\<open>level\<close>, where the level is the one given when
  that is truthy, and 1 when the field is absent.
\<close>

theorem submit_score_requires_truthy_fields:
  "(status (fst (submit_score b outcome)) = 400
      \<longleftrightarrow> \<not> truthy (field b ''score'') \<or> \<not> truthy (field b ''player_name''))
   \<and> (\<not> truthy (field b ''score'') \<or> \<not> truthy (field b ''player_name'')
        \<longrightarrow> snd (submit_score b outcome) = None)
   \<and> (truthy (field b ''score'') \<and> truthy (field b ''player_name'') \<and> truthy (field b ''level'')
        \<longrightarrow> snd (submit_score b outcome)
              = Some (Obj [(''score'', json_of (field b ''score'')),
                           (''player_name'', json_of (field b ''player_name'')),
                           (''level'', json_of (field b ''level''))]))
   \<and> (truthy (field b ''score'') \<and> truthy (field b ''player_name'') \<and> map_of b ''level'' = None
        \<longrightarrow> snd (submit_score b outcome)
              = Some (Obj [(''score'', json_of (field b ''score'')),
                           (''player_name'', json_of (field b ''player_name'')),
                           (''level'', Num (Fin 1))]))"
  by (auto simp: submit_score_def Let_def js_or_def status_res_json truthy_defined field_absent
      split: store_outcome.splits option.splits)

theorem submit_score_requires_truthy_fields_witness:
  "status (fst (submit_score score_zero store_created)) = 400
   \<and> snd (submit_score score_zero store_created) = None
   \<and> snd (submit_score score_hundred store_created)
       = Some (Obj [(''score'', Num (Fin 100)), (''player_name'', Str ''ace''),
                    (''level'', Num (Fin 1))])
   \<and> snd (submit_score score_hundred_level_four store_created)
       = Some (Obj [(''score'', Num (Fin 100)), (''player_name'', Str ''ace''),
                    (''level'', Num (Fin 4))])"
  using submit_score_requires_truthy_fields [of score_zero store_created]
    submit_score_requires_truthy_fields [of score_hundred store_created]
    submit_score_requires_truthy_fields [of score_hundred_level_four store_created]
  by (simp add: score_zero_def score_hundred_def score_hundred_level_four_def field_def)

text \<open>
  C9. When the request to the store fails in transport, or the store answers with a
  status outside 200 to 299, \<^verbatim>\<open>GET /api/scores\<close> and (for a body that passes the
  validation, so that a request is made) \<^verbatim>\<open>POST /api/scores\<close> answer 500 with a fixed
  body that holds nothing of the failure.
\<close>

theorem store_failure_gives_generic_500:
  assumes "outcome = Store_threw msg \<or> (outcome = Store_replied st txt parsed \<and> \<not> response_ok st)"
  shows "list_scores outcome
           = Reply 500 (Json (Obj [(''error'', Str ''Failed to fetch high scores'')]))
       \<and> (truthy (field b ''score'') \<and> truthy (field b ''player_name'') \<longrightarrow>
            fst (submit_score b outcome)
              = Reply 500 (Json (Obj [(''error'', Str ''Failed to save high score'')])))"
  using assms
  by (auto simp: list_scores_def submit_score_def res_json_def Let_def)

theorem store_failure_gives_generic_500_witness:
  "list_scores store_down = Reply 500 (Json (Obj [(''error'', Str ''Failed to fetch high scores'')]))
   \<and> fst (submit_score score_hundred store_down)
       = Reply 500 (Json (Obj [(''error'', Str ''Failed to save high score'')]))
   \<and> list_scores store_unavailable
       = Reply 500 (Json (Obj [(''error'', Str ''Failed to fetch high scores'')]))
   \<and> fst (submit_score score_hundred store_unavailable)
       = Reply 500 (Json (Obj [(''error'', Str ''Failed to save high score'')]))"
  using store_failure_gives_generic_500
          [of store_down "''connect ECONNREFUSED''" 0 "[]" None score_hundred]
        store_failure_gives_generic_500
          [of store_unavailable "[]" 503 "''upstream connect error''" None score_hundred]
  by (simp add: store_down_def store_unavailable_def response_ok_def score_hundred_def field_def)

end
